theory Spec2Isabelle
  imports Complex_Main
begin

section \<open>Values shared by the agents and the session store\<close>

text \<open>
  Python strings whose length or characters matter (model replies, prompts, keywords,
  exception messages) are lists of Unicode code points, as \<open>len\<close> and the \<open>re\<close> module
  see them. Identifiers that are only compared and concatenated (session ids, dataset
  ids, paths, column names) are plain strings.
\<close>

type_synonym ustr = "nat list"

definition ascii :: "string \<Rightarrow> ustr" where
  "ascii s = map of_char s"

text \<open>A raised exception: its class name and its message (\<open>str(e)\<close>).\<close>

datatype py_exception = PyExc (exc_class: string) (exc_msg: ustr)

definition KeyError :: "string \<Rightarrow> py_exception" where
  "KeyError k = PyExc ''KeyError'' ([39] @ ascii k @ [39])"

text \<open>
  A table as the store exchanges it (\<open>Dict[str, List]\<close>, the result of
  \<open>DataFrame.to_dict(orient='list')\<close>): column name to the column's values. A cell is
  missing (\<open>None\<close>/\<open>NaN\<close>), a number or a string.
\<close>

datatype cell = Null | Num rat | Str string

type_synonym table = "(string \<times> cell list) list"

type_synonym row = "(string \<times> cell) list"

datatype payload = Columns table | NotADict

text \<open>Python's \<open>d[k] = v\<close> on an insertion-ordered dict.\<close>

fun dict_set :: "'k \<Rightarrow> 'v \<Rightarrow> ('k \<times> 'v) list \<Rightarrow> ('k \<times> 'v) list" where
  "dict_set k v [] = [(k, v)]"
| "dict_set k v ((k', v') # kvs) =
     (if k' = k then (k, v) # kvs else (k', v') # dict_set k v kvs)"

section \<open>The session store (app/services/session\_service.py)\<close>

text \<open>
  A dataset dictionary with the keys the store reads or writes; every key may be absent.
  \<open>add_dataset\<close> and \<open>add_history\<close> read \<open>name\<close>, \<open>type\<close> and \<open>preview\<close> with
  \<open>dataset[...]\<close>, which raises \<open>KeyError\<close> on an absent key.
\<close>

record dataset =
  ds_name :: "string option"
  ds_type :: "string option"
  ds_preview :: "row list option"
  ds_path :: "string option"
  ds_data :: "payload option"
  ds_data_file :: "string option"

text \<open>A history item; the store only looks at its \<open>datasets\<close> key.\<close>

record history_item =
  h_id :: string
  h_role :: string
  h_content :: string
  h_result_type :: "string option"
  h_datasets :: "(string \<times> dataset) list option"
  h_generated_code :: "string option"
  h_viz_url :: "string option"

record session_meta =
  sm_id :: string
  sm_name :: string
  sm_created_at :: string
  sm_updated_at :: string

record session_data =
  sd_datasets :: "(string \<times> dataset) list"
  sd_history :: "history_item list"

definition empty_session :: session_data where
  "empty_session = \<lparr>sd_datasets = [], sd_history = []\<rparr>"

text \<open>
  The files the service touches. The three kinds of file it owns live in three places
  (\<open>data_dir/sessions_meta.json\<close>, \<open>sessions_dir/<id>.json\<close>, \<open>datasets_dir/<id>.csv\<close>), so
  each kind is a map of its own, keyed by the id that names the file; the original
  uploaded files are keyed by their path.
\<close>

datatype file_ref = MetaFile | SessionFile string | DatasetFile string | SourceFile string

text \<open>
  What the service takes from outside: the clock, whether an I/O action on a file
  succeeds (each \<open>try ... except Exception\<close> of the source guards one), and pandas.
  A write is \<open>open(path, 'w')\<close> followed by the dump: \<open>write_ok\<close> says that both
  succeed; when the write fails, \<open>open_ok\<close> says whether the file had been opened, and so
  truncated, before the failure. A truncated JSON file is one that every reader of the
  service answers with its empty default (\<open>json.load\<close> raises), so it is a file holding
  that default; a truncated CSV file holds \<open>partial_csv\<close> of the content.
  \<open>to_csv\<close> is \<open>pd.DataFrame(data).to_csv\<close> giving the file content (\<open>None\<close> when the
  DataFrame cannot be built, e.g. for columns of unequal length),
  \<open>read_csv\<close>/\<open>read_excel\<close> parse a file content (\<open>None\<close> when they raise),
  \<open>file_extension\<close> is \<open>os.path.splitext(path)[1].lower()\<close> and \<open>is_numeric_dtype\<close> is
  \<open>pd.api.types.is_numeric_dtype\<close> on a column. \<open>loader_importable\<close> says whether
  \<open>from app.utils.data_loader import DataLoader\<close> succeeds: the module is loaded already,
  or its last line, which loads the author's \<open>sample.xlsx\<close> when the module is first
  imported, does not raise. \<open>'f\<close> is the type of file contents.
\<close>

record 'f env =
  now :: string
  write_ok :: "file_ref \<Rightarrow> bool"
  open_ok :: "file_ref \<Rightarrow> bool"
  read_ok :: "file_ref \<Rightarrow> bool"
  remove_ok :: "file_ref \<Rightarrow> bool"
  to_csv :: "payload \<Rightarrow> 'f option"
  read_csv :: "'f \<Rightarrow> table option"
  read_excel :: "'f \<Rightarrow> table option"
  partial_csv :: "'f \<Rightarrow> 'f"
  file_extension :: "string \<Rightarrow> string"
  is_numeric_dtype :: "cell list \<Rightarrow> bool"
  loader_importable :: bool

text \<open>
  The service object (\<open>sessions_meta\<close>, \<open>sessions_cache\<close>, \<open>datasets_cache\<close>) together with
  the disk it works on.
\<close>

record 'f store =
  datasets_dir :: string
  sessions_meta :: "session_meta list"
  sessions_cache :: "string \<rightharpoonup> session_data"
  datasets_cache :: "string \<rightharpoonup> table"
  meta_file :: "session_meta list option"
  session_files :: "string \<rightharpoonup> session_data"
  dataset_files :: "string \<rightharpoonup> 'f"
  source_files :: "string \<rightharpoonup> 'f"

definition load_sessions_meta :: "'f env \<Rightarrow> 'f store \<Rightarrow> session_meta list" where
  "load_sessions_meta e s =
     (case meta_file s of
        Some ms \<Rightarrow> if read_ok e MetaFile then ms else []
      | None \<Rightarrow> [])"

text \<open>
  \<open>_save_sessions_meta\<close>: \<open>open(path, 'w')\<close> then \<open>json.dump\<close>, any exception printed. A dump
  that fails after the file was opened leaves a truncated index file, which
  \<open>_load_sessions_meta\<close> answers with the empty index.
\<close>

definition save_sessions_meta :: "'f env \<Rightarrow> 'f store \<Rightarrow> 'f store" where
  "save_sessions_meta e s =
     (if write_ok e MetaFile then s\<lparr>meta_file := Some (sessions_meta s)\<rparr>
      else if open_ok e MetaFile then s\<lparr>meta_file := Some []\<rparr>
      else s)"

text \<open>\<open>SessionService(data_dir)\<close> on a disk: the index is read, both caches start empty.\<close>

definition init_service :: "'f env \<Rightarrow> 'f store \<Rightarrow> 'f store" where
  "init_service e s =
     s\<lparr>sessions_meta := load_sessions_meta e s,
       sessions_cache := Map.empty,
       datasets_cache := Map.empty\<rparr>"

definition get_dataset_path :: "'f store \<Rightarrow> string \<Rightarrow> string" where
  "get_dataset_path s dataset_id = datasets_dir s @ ''/'' @ dataset_id @ ''.csv''"

definition load_session_data :: "'f env \<Rightarrow> 'f store \<Rightarrow> string \<Rightarrow> session_data" where
  "load_session_data e s session_id =
     (case session_files s session_id of
        Some body \<Rightarrow> if read_ok e (SessionFile session_id) then body else empty_session
      | None \<Rightarrow> empty_session)"

text \<open>
  \<open>_save_session_data\<close>: likewise; a truncated body file is one that \<open>_load_session_data\<close>
  answers with the empty body.
\<close>

definition save_session_data :: "'f env \<Rightarrow> 'f store \<Rightarrow> string \<Rightarrow> session_data \<Rightarrow> 'f store" where
  "save_session_data e s session_id body =
     (if write_ok e (SessionFile session_id)
      then s\<lparr>session_files := (session_files s)(session_id \<mapsto> body)\<rparr>
      else if open_ok e (SessionFile session_id)
      then s\<lparr>session_files := (session_files s)(session_id \<mapsto> empty_session)\<rparr>
      else s)"

definition save_dataset_to_csv ::
  "'f env \<Rightarrow> 'f store \<Rightarrow> string \<Rightarrow> payload \<Rightarrow> bool \<times> 'f store" where
  "save_dataset_to_csv e s dataset_id data =
     (case to_csv e data of
        None \<Rightarrow> (False, s)
      | Some f \<Rightarrow>
          if write_ok e (DatasetFile dataset_id)
          then (True, s\<lparr>dataset_files := (dataset_files s)(dataset_id \<mapsto> f)\<rparr>)
          else if open_ok e (DatasetFile dataset_id)
          then (False, s\<lparr>dataset_files := (dataset_files s)(dataset_id \<mapsto> partial_csv e f)\<rparr>)
          else (False, s))"

definition load_dataset_from_csv :: "'f env \<Rightarrow> 'f store \<Rightarrow> string \<Rightarrow> table option" where
  "load_dataset_from_csv e s dataset_id =
     (case dataset_files s dataset_id of
        None \<Rightarrow> None
      | Some f \<Rightarrow> if read_ok e (DatasetFile dataset_id) then read_csv e f else None)"

definition get_session :: "'f env \<Rightarrow> 'f store \<Rightarrow> string \<Rightarrow> session_data \<times> 'f store" where
  "get_session e s session_id =
     (case sessions_cache s session_id of
        Some body \<Rightarrow> (body, s)
      | None \<Rightarrow>
          (let body = load_session_data e s session_id
           in (body, s\<lparr>sessions_cache := (sessions_cache s)(session_id \<mapsto> body)\<rparr>)))"

text \<open>\<open>uuid.uuid4()\<close> is the parameter \<open>new_id\<close>.\<close>

definition create_session ::
  "'f env \<Rightarrow> 'f store \<Rightarrow> string \<Rightarrow> string \<Rightarrow> session_meta \<times> 'f store" where
  "create_session e s new_id name =
     (let m = \<lparr>sm_id = new_id, sm_name = name,
                sm_created_at = now e, sm_updated_at = now e\<rparr>;
          s1 = save_sessions_meta e (s\<lparr>sessions_meta := sessions_meta s @ [m]\<rparr>);
          s2 = save_session_data e s1 new_id empty_session
      in (m, s2\<lparr>sessions_cache := (sessions_cache s2)(new_id \<mapsto> empty_session)\<rparr>))"

text \<open>
  The loop \<open>for session in sessions: if session["id"] == session_id: ...; break\<close>: the
  first record with the id is changed.
\<close>

fun update_first :: "string \<Rightarrow> (session_meta \<Rightarrow> session_meta) \<Rightarrow> session_meta list \<Rightarrow>
    session_meta list option" where
  "update_first session_id f [] = None"
| "update_first session_id f (m # ms) =
     (if sm_id m = session_id then Some (f m # ms)
      else map_option ((#) m) (update_first session_id f ms))"

definition rename_session :: "'f env \<Rightarrow> 'f store \<Rightarrow> string \<Rightarrow> string \<Rightarrow> bool \<times> 'f store" where
  "rename_session e s session_id new_name =
     (case update_first session_id
             (\<lambda>m. m\<lparr>sm_name := new_name, sm_updated_at := now e\<rparr>) (sessions_meta s) of
        Some ms \<Rightarrow> (True, save_sessions_meta e (s\<lparr>sessions_meta := ms\<rparr>))
      | None \<Rightarrow> (False, s))"

definition touch_session :: "'f env \<Rightarrow> 'f store \<Rightarrow> string \<Rightarrow> 'f store" where
  "touch_session e s session_id =
     (case update_first session_id (\<lambda>m. m\<lparr>sm_updated_at := now e\<rparr>) (sessions_meta s) of
        Some ms \<Rightarrow> save_sessions_meta e (s\<lparr>sessions_meta := ms\<rparr>)
      | None \<Rightarrow> s)"

definition remove_dataset_file :: "'f env \<Rightarrow> string \<Rightarrow> 'f store \<Rightarrow> 'f store" where
  "remove_dataset_file e dataset_id s =
     (if dataset_files s dataset_id \<noteq> None \<and> remove_ok e (DatasetFile dataset_id)
      then s\<lparr>dataset_files := (dataset_files s)(dataset_id := None)\<rparr>
      else s)"

definition remove_session_file :: "'f env \<Rightarrow> string \<Rightarrow> 'f store \<Rightarrow> 'f store" where
  "remove_session_file e session_id s =
     (if session_files s session_id \<noteq> None \<and> remove_ok e (SessionFile session_id)
      then s\<lparr>session_files := (session_files s)(session_id := None)\<rparr>
      else s)"

text \<open>
  \<open>delete_session\<close>: the index entry goes, the body file is removed, and only then is
  the body fetched with \<open>get_session\<close> to find the dataset files to remove.
\<close>

definition delete_session :: "'f env \<Rightarrow> 'f store \<Rightarrow> string \<Rightarrow> bool \<times> 'f store" where
  "delete_session e s session_id =
     (let s1 = save_sessions_meta e
                 (s\<lparr>sessions_meta := filter (\<lambda>m. sm_id m \<noteq> session_id) (sessions_meta s)\<rparr>);
          s2 = remove_session_file e session_id s1;
          (body, s3) = get_session e s2 session_id;
          s4 = fold (remove_dataset_file e) (map fst (sd_datasets body)) s3
      in (True, s4\<lparr>sessions_cache := (sessions_cache s4)(session_id := None)\<rparr>))"

definition list_sessions :: "'f store \<Rightarrow> session_meta list" where
  "list_sessions s = sessions_meta s"

text \<open>
  \<open>add_dataset\<close>: the first component is the exception that leaves the call, if any.
\<close>

definition add_dataset ::
  "'f env \<Rightarrow> 'f store \<Rightarrow> string \<Rightarrow> string \<Rightarrow> dataset \<Rightarrow> py_exception option \<times> 'f store" where
  "add_dataset e s session_id dataset_id ds =
     (let (body, s1) = get_session e s session_id in
      case ds_name ds of None \<Rightarrow> (Some (KeyError ''name''), s1) | Some n \<Rightarrow>
      case ds_type ds of None \<Rightarrow> (Some (KeyError ''type''), s1) | Some t \<Rightarrow>
      case ds_preview ds of None \<Rightarrow> (Some (KeyError ''preview''), s1) | Some p \<Rightarrow>
      let meta0 = \<lparr>ds_name = Some n, ds_type = Some t, ds_preview = Some p,
                    ds_path = ds_path ds, ds_data = None, ds_data_file = None\<rparr>;
          (meta, s2) =
             (case ds_data ds of
                Some (Columns tb) \<Rightarrow>
                  (let (saved, s') = save_dataset_to_csv e s1 dataset_id (Columns tb)
                   in if saved
                      then (meta0\<lparr>ds_data_file := Some (get_dataset_path s' dataset_id)\<rparr>, s')
                      else (meta0, s'))
              | _ \<Rightarrow> (meta0, s1));
          body' = body\<lparr>sd_datasets := dict_set dataset_id meta (sd_datasets body)\<rparr>;
          s3 = s2\<lparr>sessions_cache := (sessions_cache s2)(session_id \<mapsto> body')\<rparr>;
          s4 = save_session_data e s3 session_id body'
      in (None, touch_session e s4 session_id))"

text \<open>
  \<open>DataLoader(path).load_data()\<close> (app/utils/data\_loader.py): the file must exist, its
  extension selects the reader, and missing values are filled: \<open>0\<close> in a numeric column,
  the empty string in any other.
\<close>

definition fillna :: "'f env \<Rightarrow> table \<Rightarrow> table" where
  "fillna e df =
     map (\<lambda>(col, vs).
            (col, map (\<lambda>c. if c = Null
                             then (if is_numeric_dtype e vs then Num 0 else Str [])
                             else c) vs)) df"

definition load_data :: "'f env \<Rightarrow> 'f store \<Rightarrow> string \<Rightarrow> py_exception + table" where
  "load_data e s file_path =
     (case source_files s file_path of
        None \<Rightarrow>
          Inl (PyExc ''FileNotFoundError''
                 ([25991, 20214, 19981, 23384, 22312, 58, 32] @ ascii file_path))
      | Some f \<Rightarrow>
          if \<not> read_ok e (SourceFile file_path) then Inl (PyExc ''OSError'' [])
          else if file_extension e file_path = ''.csv''
          then (case read_csv e f of
                  None \<Rightarrow> Inl (PyExc ''ParserError'' [])
                | Some df \<Rightarrow> Inr (fillna e df))
          else if file_extension e file_path \<in> set [''.xlsx'', ''.xls'']
          then (case read_excel e f of
                  None \<Rightarrow> Inl (PyExc ''ParserError'' [])
                | Some df \<Rightarrow> Inr (fillna e df))
          else Inl (PyExc ''ValueError''
                      ([19981, 25903, 25345, 30340, 25991, 20214, 26684, 24335, 58, 32]
                       @ ascii (file_extension e file_path))))"

definition cache_key :: "string \<Rightarrow> string \<Rightarrow> string" where
  "cache_key session_id dataset_id = session_id @ ''_'' @ dataset_id"

text \<open>
  \<open>get_dataset_data\<close>: the cache first; then the metadata of the session; then the CSV
  file when the metadata has \<open>data_file\<close> (a loaded table that is falsy, the empty dict,
  is not returned), \<open>elif\<close> the original file when it has \<open>path\<close>: there the \<open>try\<close>
  block first imports \<open>app.utils.data_loader\<close>, and a failing import is answered with
  \<open>None\<close> like any other exception of the block.
\<close>

definition get_dataset_data ::
  "'f env \<Rightarrow> 'f store \<Rightarrow> string \<Rightarrow> string \<Rightarrow> table option \<times> 'f store" where
  "get_dataset_data e s session_id dataset_id =
     (case datasets_cache s (cache_key session_id dataset_id) of
        Some data \<Rightarrow> (Some data, s)
      | None \<Rightarrow>
          (let (body, s1) = get_session e s session_id in
           case map_of (sd_datasets body) dataset_id of
             None \<Rightarrow> (None, s1)
           | Some meta \<Rightarrow>
               if ds_data_file meta \<noteq> None
               then (case load_dataset_from_csv e s1 dataset_id of
                       Some data \<Rightarrow>
                         if data \<noteq> []
                         then (Some data,
                               s1\<lparr>datasets_cache :=
                                    (datasets_cache s1)(cache_key session_id dataset_id \<mapsto> data)\<rparr>)
                         else (None, s1)
                     | None \<Rightarrow> (None, s1))
               else (case ds_path meta of
                       Some file_path \<Rightarrow>
                         if \<not> loader_importable e then (None, s1)
                         else
                         (case load_data e s1 file_path of
                            Inr data \<Rightarrow>
                              (Some data,
                               s1\<lparr>datasets_cache :=
                                    (datasets_cache s1)(cache_key session_id dataset_id \<mapsto> data)\<rparr>)
                          | Inl err \<Rightarrow> (None, s1))
                     | None \<Rightarrow> (None, s1))))"

definition get_datasets ::
  "'f env \<Rightarrow> 'f store \<Rightarrow> string \<Rightarrow> (string \<times> dataset) list \<times> 'f store" where
  "get_datasets e s session_id =
     (let (body, s1) = get_session e s session_id in (sd_datasets body, s1))"

definition get_history :: "'f env \<Rightarrow> 'f store \<Rightarrow> string \<Rightarrow> history_item list \<times> 'f store" where
  "get_history e s session_id =
     (let (body, s1) = get_session e s session_id in (sd_history body, s1))"

text \<open>
  The body of the loop of \<open>add_history\<close> over \<open>list(history_item["datasets"].items())\<close>:
  a dataset with a \<open>data\<close> key is written to its CSV file and replaced, in the item, by
  its metadata. The result is the exception raised (if any), the item's datasets and the
  store.
\<close>

definition externalize_one ::
  "'f env \<Rightarrow> string \<Rightarrow> dataset \<Rightarrow> (string \<times> dataset) list \<Rightarrow> 'f store \<Rightarrow>
     py_exception option \<times> (string \<times> dataset) list \<times> 'f store" where
  "externalize_one e dataset_id ds cur s =
     (case ds_data ds of
        None \<Rightarrow> (None, cur, s)
      | Some data \<Rightarrow>
          (case ds_name ds of None \<Rightarrow> (Some (KeyError ''name''), cur, s) | Some n \<Rightarrow>
           case ds_type ds of None \<Rightarrow> (Some (KeyError ''type''), cur, s) | Some t \<Rightarrow>
           case ds_preview ds of None \<Rightarrow> (Some (KeyError ''preview''), cur, s) | Some p \<Rightarrow>
           (let meta0 = \<lparr>ds_name = Some n, ds_type = Some t, ds_preview = Some p,
                         ds_path = None, ds_data = None, ds_data_file = None\<rparr>;
                (saved, s') = save_dataset_to_csv e s dataset_id data;
                meta = (if saved
                        then meta0\<lparr>ds_data_file := Some (get_dataset_path s' dataset_id)\<rparr>
                        else meta0)
            in (None, dict_set dataset_id meta cur, s'))))"

fun externalize ::
  "'f env \<Rightarrow> (string \<times> dataset) list \<Rightarrow> (string \<times> dataset) list \<Rightarrow> 'f store \<Rightarrow>
     py_exception option \<times> (string \<times> dataset) list \<times> 'f store" where
  "externalize e [] cur s = (None, cur, s)"
| "externalize e (item # rest) cur s =
     (case externalize_one e (fst item) (snd item) cur s of
        (Some err, cur', s') \<Rightarrow> (Some err, cur', s')
      | (None, cur', s') \<Rightarrow> externalize e rest cur' s')"

definition add_history ::
  "'f env \<Rightarrow> 'f store \<Rightarrow> string \<Rightarrow> history_item \<Rightarrow> py_exception option \<times> 'f store" where
  "add_history e s session_id history_item =
     (let (body, s1) = get_session e s session_id;
          (raised, dss, s2) =
             (case h_datasets history_item of
                None \<Rightarrow> (None, None, s1)
              | Some ds \<Rightarrow>
                  (let (r, ds', s') = externalize e ds ds s1 in (r, Some ds', s')))
      in case raised of
           Some err \<Rightarrow> (Some err, s2)
         | None \<Rightarrow>
             (let body' = body\<lparr>sd_history := sd_history body @ [history_item\<lparr>h_datasets := dss\<rparr>]\<rparr>;
                  s3 = s2\<lparr>sessions_cache := (sessions_cache s2)(session_id \<mapsto> body')\<rparr>;
                  s4 = save_session_data e s3 session_id body'
              in (None, touch_session e s4 session_id)))"

section \<open>Model-reply parsers (the \<open>re\<close> patterns of the agents)\<close>

text \<open>
  The agents search a model reply with \<open>re\<close> patterns. A pattern is embedded as a
  backtracking matcher in continuation style: a matcher takes the rest of the text and
  gives the result of the first way to match, in the order in which \<open>re\<close> tries them
  (a greedy \<open>\s*\<close> gives characters back one at a time; a lazy \<open>[\s\S]*?\<close> takes one
  more character at a time). \<open>is_space\<close> is \<open>\s\<close> on \<open>str\<close>: the Unicode whitespace.
\<close>

definition is_space :: "nat \<Rightarrow> bool" where
  "is_space c =
     (c \<in> set [9, 10, 11, 12, 13, 28, 29, 30, 31, 32, 133, 160, 5760, 8232, 8233, 8239,
               8287, 12288] \<or> (8192 \<le> c \<and> c \<le> 8202))"

definition starts_with :: "ustr \<Rightarrow> ustr \<Rightarrow> bool" where
  "starts_with p s = (take (length p) s = p)"

type_synonym 'r cont = "ustr \<Rightarrow> 'r option"

definition accept :: "ustr cont" where
  "accept s = Some s"

definition lit :: "ustr \<Rightarrow> 'r cont \<Rightarrow> 'r cont" where
  "lit p k s = (if starts_with p s then k (drop (length p) s) else None)"

definition alt :: "'r cont \<Rightarrow> 'r cont \<Rightarrow> 'r cont" where
  "alt k1 k2 s = (case k1 s of Some r \<Rightarrow> Some r | None \<Rightarrow> k2 s)"

fun greedy_upto :: "nat \<Rightarrow> 'r cont \<Rightarrow> 'r cont" where
  "greedy_upto 0 k s = k s"
| "greedy_upto (Suc n) k s =
     (case k (drop (Suc n) s) of Some r \<Rightarrow> Some r | None \<Rightarrow> greedy_upto n k s)"

definition ws_star :: "'r cont \<Rightarrow> 'r cont" where
  "ws_star k s = greedy_upto (length (takeWhile is_space s)) k s"

definition ws_plus :: "'r cont \<Rightarrow> 'r cont" where
  "ws_plus k s =
     (case s of [] \<Rightarrow> None
      | c # cs \<Rightarrow> if is_space c then ws_star k cs else None)"

text \<open>\<open>[\s\S]*?\<close> followed by \<open>k\<close>: the text it took and what \<open>k\<close> gave.\<close>

fun lazy_any :: "'r cont \<Rightarrow> (ustr \<times> 'r) cont" where
  "lazy_any k [] = map_option (Pair []) (k [])"
| "lazy_any k (c # cs) =
     (case k (c # cs) of
        Some r \<Rightarrow> Some ([], r)
      | None \<Rightarrow> map_option (\<lambda>(g, r). (c # g, r)) (lazy_any k cs))"

text \<open>A pattern without a group: \<open>findall\<close> gives the text of the whole match.\<close>

definition whole_match :: "ustr cont \<Rightarrow> (ustr \<times> ustr) cont" where
  "whole_match k s = map_option (\<lambda>rest. (take (length s - length rest) s, rest)) (k s)"

text \<open>
  \<open>pattern.findall(text)\<close>: the matcher \<open>m\<close> gives what \<open>findall\<close> lists for a match and
  the text after the match. The scan goes from left to right; after a match it skips the
  characters the match took.
\<close>

fun findall_skip :: "(ustr \<times> ustr) cont \<Rightarrow> nat \<Rightarrow> ustr \<Rightarrow> ustr list" where
  "findall_skip m n [] = []"
| "findall_skip m (Suc n) (c # cs) = findall_skip m n cs"
| "findall_skip m 0 (c # cs) =
     (case m (c # cs) of
        Some (found, rest) \<Rightarrow> found # findall_skip m (length cs - length rest) cs
      | None \<Rightarrow> findall_skip m 0 cs)"

definition findall :: "(ustr \<times> ustr) cont \<Rightarrow> ustr \<Rightarrow> ustr list" where
  "findall m s = findall_skip m 0 s"

definition fence :: ustr where
  "fence = [96, 96, 96]"

definition python :: ustr where
  "python = ascii ''python''"

text \<open>\<open>\s*```\<close>, the end of a fenced block.\<close>

definition closing :: "ustr cont" where
  "closing = ws_star (lit fence accept)"

text \<open>
  \<open>```(?:tag)?\s*([\s\S]*?)\s*```\<close> with the tag \<open>python\<close> (data\_analysis\_agent.py) or
  \<open>json\<close> (user\_intent\_agent.py); the group is what \<open>findall\<close> lists.
\<close>

definition code_block_pattern :: "ustr \<Rightarrow> (ustr \<times> ustr) cont" where
  "code_block_pattern tag =
     lit fence (alt (lit tag (ws_star (lazy_any closing))) (ws_star (lazy_any closing)))"

text \<open>
  \<open>def\s+analyze_data\s*\(\s*dfs\s*\)[\s\S]*?(?:return|pass)\<close>: the match ends with the
  first \<open>return\<close> or \<open>pass\<close> after the parameter list.
\<close>

definition function_pattern :: "(ustr \<times> ustr) cont" where
  "function_pattern =
     whole_match
       (lit (ascii ''def'') (ws_plus (lit (ascii ''analyze_data'') (ws_star (lit [40]
          (ws_star (lit (ascii ''dfs'') (ws_star (lit [41]
             (\<lambda>s. map_option snd
                (lazy_any (alt (lit (ascii ''return'') accept)
                               (lit (ascii ''pass'') accept)) s)))))))))))"


text \<open>
  \<open>max(xs, key=f)\<close> on a list that is not empty, \<open>best\<close> being the value so far: a later
  element replaces it only when its key is larger, so the first of the largest wins.
\<close>

fun py_max_from :: "('a \<Rightarrow> 'b::linorder) \<Rightarrow> 'a \<Rightarrow> 'a list \<Rightarrow> 'a" where
  "py_max_from key best [] = best"
| "py_max_from key best (x # xs) =
     py_max_from key (if key best < key x then x else best) xs"

section \<open>The analysis agent (app/agents/data\_analysis\_agent.py)\<close>

definition extract_code_from_response :: "ustr \<Rightarrow> ustr" where
  "extract_code_from_response response_text =
     (case findall (code_block_pattern python) response_text of
        m # ms \<Rightarrow> py_max_from length m ms
      | [] \<Rightarrow>
          (case findall function_pattern response_text of
             f # fs \<Rightarrow> py_max_from length f fs
           | [] \<Rightarrow> response_text))"

text \<open>
  What the generated code can hand back: a value is a DataFrame, a dict or something
  else; the module's attribute \<open>analyze_data\<close> is missing, is not callable (with the name
  of its type) or is a function that returns a value or raises.
\<close>

datatype py_object = DataFrame table | Dict "(ustr \<times> py_object) list" | Other

datatype attribute =
  Missing | NotCallable string | Callable "table list \<Rightarrow> py_exception + py_object"

text \<open>
  The Python runtime the agent uses: the name \<open>tempfile\<close> picks and whether the file can
  be created, what executing a module text gives (an exception, or the module, seen
  through its attribute \<open>analyze_data\<close>), and whether \<open>os.unlink\<close> succeeds.
\<close>

record runtime =
  temp_name :: string
  create_ok :: bool
  exec_module :: "ustr \<Rightarrow> py_exception + attribute"
  unlink_ok :: bool

text \<open>The loop over \<open>result.items()\<close> that builds \<open>final_result\<close>.\<close>

fun collect_frames ::
  "(ustr \<times> py_object) list \<Rightarrow> (ustr \<times> table) list \<Rightarrow> py_exception + (ustr \<times> table) list" where
  "collect_frames [] final_result = Inr final_result"
| "collect_frames ((key, v) # rest) final_result =
     (case v of
        DataFrame df \<Rightarrow> collect_frames rest (dict_set key df final_result)
      | _ \<Rightarrow>
          Inl (PyExc ''TypeError''
                 ([20998, 26512, 32467, 26524, 39] @ key @
                  [39, 24517, 39035, 26159, 68, 97, 116, 97, 70, 114, 97, 109, 101, 31867,
                   22411])))"

text \<open>
  Step 5 of \<open>execute\<close>: the code is written to a temporary file, imported and called
  inside \<open>try\<close>; \<open>finally\<close> removes the file. There is no \<open>except\<close>. The state is the
  directory of temporary files.
\<close>

definition run_generated_code ::
  "runtime \<Rightarrow> (string \<rightharpoonup> ustr) \<Rightarrow> table list \<Rightarrow> ustr \<Rightarrow>
     (py_exception + (ustr \<times> table) list) \<times> (string \<rightharpoonup> ustr)" where
  "run_generated_code rt files dfs generated_code =
     (if \<not> create_ok rt then (Inl (PyExc ''OSError'' []), files)
      else
        (let files1 = files(temp_name rt \<mapsto> generated_code);
             outcome =
               (case exec_module rt generated_code of
                  Inl ex \<Rightarrow> Inl ex
                | Inr Missing \<Rightarrow>
                    Inl (PyExc ''AttributeError''
                           (ascii ''module has no attribute analyze_data''))
                | Inr (NotCallable ty) \<Rightarrow>
                    Inl (PyExc ''TypeError'' (ascii ty @ ascii '' object is not callable''))
                | Inr (Callable analyze_data) \<Rightarrow>
                    (case analyze_data dfs of
                       Inl ex \<Rightarrow> Inl ex
                     | Inr (Dict items) \<Rightarrow> collect_frames items []
                     | Inr _ \<Rightarrow>
                         Inl (PyExc ''TypeError''
                                [20998, 26512, 20989, 25968, 24517, 39035, 36820, 22238,
                                 23383, 20856, 31867, 22411, 30340, 32467, 26524])))
         in if unlink_ok rt
            then (outcome, files1(temp_name rt := None))
            else (Inl (PyExc ''OSError'' []), files1)))"

text \<open>
  \<open>_process_inputs\<close>: an input is a DataFrame, a path or something else (with the name of
  its type). The names it also builds only go into the prompt.
\<close>

datatype input_obj = InFrame table | InPath string | InOther string

fun process_inputs_loop ::
  "'f env \<Rightarrow> 'f store \<Rightarrow> input_obj list \<Rightarrow> table list \<Rightarrow> py_exception + table list" where
  "process_inputs_loop e s [] dfs = Inr dfs"
| "process_inputs_loop e s (InFrame df # rest) dfs = process_inputs_loop e s rest (dfs @ [df])"
| "process_inputs_loop e s (InPath file_path # rest) dfs =
     (case load_data e s file_path of
        Inr df \<Rightarrow> process_inputs_loop e s rest (dfs @ [df])
      | Inl ex \<Rightarrow>
          Inl (PyExc ''ValueError''
                 ([26080, 27861, 20174, 36335, 24452, 21152, 36733, 25968, 25454, 58, 32] @
                  ascii file_path @ [44, 32, 38169, 35823, 58, 32] @ exc_msg ex)))"
| "process_inputs_loop e s (InOther ty # rest) dfs =
     Inl (PyExc ''TypeError''
            ([19981, 25903, 25345, 30340, 36755, 20837, 31867, 22411, 58, 32] @ ascii ty))"

definition process_inputs :: "'f env \<Rightarrow> 'f store \<Rightarrow> input_obj list \<Rightarrow> py_exception + table list" where
  "process_inputs e s inputs =
     (case process_inputs_loop e s inputs [] of
        Inl ex \<Rightarrow> Inl ex
      | Inr dfs \<Rightarrow>
          if dfs = []
          then Inl (PyExc ''ValueError''
                      [27809, 26377, 26377, 25928, 30340, 36755, 20837, 25968, 25454])
          else Inr dfs)"

text \<open>
  \<open>DataAnalysisAgent.execute\<close>. \<open>chat\<close> is the model: the content of its reply to the
  prompt built from the inputs and the requirement, or the exception of the call. The
  result is what leaves the call, \<open>self.generated_code\<close> and the temporary files.
\<close>

definition analysis_execute ::
  "'f env \<Rightarrow> 'f store \<Rightarrow> runtime \<Rightarrow> (input_obj list \<Rightarrow> ustr \<Rightarrow> py_exception + ustr) \<Rightarrow>
     ustr \<Rightarrow> (string \<rightharpoonup> ustr) \<Rightarrow> input_obj list \<Rightarrow> ustr \<Rightarrow>
     (py_exception + (ustr \<times> table) list) \<times> ustr \<times> (string \<rightharpoonup> ustr)" where
  "analysis_execute e s rt chat generated_code files inputs analysis_requirement =
     (case process_inputs e s inputs of
        Inl ex \<Rightarrow> (Inl ex, generated_code, files)
      | Inr dfs \<Rightarrow>
          (case chat inputs analysis_requirement of
             Inl ex \<Rightarrow> (Inl ex, generated_code, files)
           | Inr raw_content \<Rightarrow>
               (let code = extract_code_from_response raw_content;
                    (outcome, files') = run_generated_code rt files dfs code
                in (outcome, code, files'))))"

section \<open>The intent agent (app/agents/user\_intent\_agent.py)\<close>

















section \<open>Retrievable payloads and reachable states\<close>

text \<open>
  The bodies the store holds for a session id (the cached one and the one in the body
  file), the dataset entries a body refers to (its \<open>datasets\<close> map and the datasets of
  its history items), and what it means for an entry to resolve: its original file
  exists at the recorded path, or the CSV file named by its id exists.
\<close>

definition bodies :: "'f store \<Rightarrow> string \<Rightarrow> session_data list" where
  "bodies s session_id =
     (case sessions_cache s session_id of Some b \<Rightarrow> [b] | None \<Rightarrow> []) @
     (case session_files s session_id of Some b \<Rightarrow> [b] | None \<Rightarrow> [])"

definition referenced :: "session_data \<Rightarrow> (string \<times> dataset) list" where
  "referenced b =
     sd_datasets b @
     concat (map (\<lambda>h. case h_datasets h of Some dss \<Rightarrow> dss | None \<Rightarrow> []) (sd_history b))"







section \<open>Example values\<close>

text \<open>
  An environment in which every I/O action succeeds, a file holds the table written to
  it and a column is numeric when it has no string, a fresh service on an empty disk, and a store with one session \<open>s1\<close> holding one
  generated dataset \<open>d1\<close>.
\<close>

definition quiet_env :: "table env" where
  "quiet_env = \<lparr>now = ''t'', write_ok = (\<lambda>_. True), open_ok = (\<lambda>_. True),
     read_ok = (\<lambda>_. True), remove_ok = (\<lambda>_. True),
     to_csv = (\<lambda>p. case p of Columns tb \<Rightarrow> Some tb | NotADict \<Rightarrow> None),
     read_csv = Some, read_excel = Some, partial_csv = (\<lambda>_. []),
     file_extension = (\<lambda>_. ''.csv''),
     is_numeric_dtype = list_all (\<lambda>c. case c of Str _ \<Rightarrow> False | _ \<Rightarrow> True),
     loader_importable = True\<rparr>"

definition empty_store :: "table store" where
  "empty_store = \<lparr>datasets_dir = ''data/datasets'', sessions_meta = [],
     sessions_cache = Map.empty, datasets_cache = Map.empty, meta_file = None,
     session_files = Map.empty, dataset_files = Map.empty, source_files = Map.empty\<rparr>"

definition demo_table :: table where
  "demo_table = [(''a'', [Num 1, Null]), (''b'', [Str ''x'', Str ''y''])]"

definition demo_dataset :: dataset where
  "demo_dataset = \<lparr>ds_name = Some ''avg'', ds_type = Some ''generated'', ds_preview = Some [],
     ds_path = None, ds_data = Some (Columns demo_table), ds_data_file = None\<rparr>"

definition demo_store :: "table store" where
  "demo_store =
     snd (add_dataset quiet_env (snd (create_session quiet_env empty_store ''s1'' ''one''))
            ''s1'' ''d1'' demo_dataset)"

definition deleted_store :: "table store" where
  "deleted_store = snd (delete_session quiet_env demo_store ''s1'')"

definition demo_item :: history_item where
  "demo_item = \<lparr>h_id = ''m1'', h_role = ''user'', h_content = ''hello'',
     h_result_type = None, h_datasets = None, h_generated_code = None, h_viz_url = None\<rparr>"

definition failing_env :: "table env" where
  "failing_env = quiet_env\<lparr>write_ok :=
     (\<lambda>f. case f of DatasetFile d \<Rightarrow> False | _ \<Rightarrow> True),
     open_ok := (\<lambda>f. case f of DatasetFile d \<Rightarrow> False | _ \<Rightarrow> True)\<rparr>"

definition unsaved_store :: "table store" where
  "unsaved_store =
     snd (add_dataset failing_env (snd (create_session quiet_env empty_store ''s1'' ''one''))
            ''s1'' ''d1'' demo_dataset)"

definition shared_store :: "table store" where
  "shared_store =
     snd (add_dataset quiet_env
            (snd (create_session quiet_env demo_store ''s2'' ''two'')) ''s2'' ''d1'' demo_dataset)"

definition mixed_store :: "table store" where
  "mixed_store = snd (add_dataset quiet_env unsaved_store ''s1'' ''d2'' demo_dataset)"

definition uploaded_dataset :: dataset where
  "uploaded_dataset = \<lparr>ds_name = Some ''sales.csv'', ds_type = Some ''uploaded'',
     ds_preview = Some [], ds_path = Some ''uploads/sales.csv'', ds_data = None,
     ds_data_file = None\<rparr>"

definition upload_store :: "table store" where
  "upload_store = empty_store\<lparr>source_files := [''uploads/sales.csv'' \<mapsto> demo_table]\<rparr>"

definition no_loader_env :: "table env" where
  "no_loader_env = quiet_env\<lparr>loader_importable := False\<rparr>"










definition demo_runtime :: runtime where
  "demo_runtime = \<lparr>temp_name = ''tmp_analysis.py'', create_ok = True,
     exec_module = (\<lambda>code. Inr (Callable (\<lambda>dfs.
        Inl (PyExc ''ZeroDivisionError'' (ascii ''division by zero''))))),
     unlink_ok = True\<rparr>"

section \<open>Frame lemmas of the store's steps\<close>

lemmas store_defs = load_sessions_meta_def save_sessions_meta_def init_service_def
  get_dataset_path_def load_session_data_def save_session_data_def save_dataset_to_csv_def
  load_dataset_from_csv_def get_session_def create_session_def rename_session_def
  touch_session_def remove_dataset_file_def remove_session_file_def delete_session_def
  list_sessions_def add_dataset_def fillna_def load_data_def cache_key_def
  get_dataset_data_def get_datasets_def get_history_def add_history_def empty_session_def
  externalize_one_def

lemmas demo_defs = quiet_env_def empty_store_def demo_table_def demo_dataset_def demo_store_def
  deleted_store_def demo_item_def failing_env_def unsaved_store_def shared_store_def
  mixed_store_def uploaded_dataset_def upload_store_def no_loader_env_def

lemma save_sessions_meta_fields [simp]:
  "sessions_cache (save_sessions_meta e s) = sessions_cache s"
  "datasets_cache (save_sessions_meta e s) = datasets_cache s"
  "session_files (save_sessions_meta e s) = session_files s"
  "dataset_files (save_sessions_meta e s) = dataset_files s"
  "source_files (save_sessions_meta e s) = source_files s"
  "sessions_meta (save_sessions_meta e s) = sessions_meta s"
  "datasets_dir (save_sessions_meta e s) = datasets_dir s"
  by (simp_all add: save_sessions_meta_def)

lemma touch_session_fields [simp]:
  "sessions_cache (touch_session e s sid) = sessions_cache s"
  "datasets_cache (touch_session e s sid) = datasets_cache s"
  "session_files (touch_session e s sid) = session_files s"
  "dataset_files (touch_session e s sid) = dataset_files s"
  "source_files (touch_session e s sid) = source_files s"
  "datasets_dir (touch_session e s sid) = datasets_dir s"
  by (simp_all add: touch_session_def split: option.splits)

lemma remove_session_file_fields [simp]:
  "sessions_cache (remove_session_file e sid s) = sessions_cache s"
  "datasets_cache (remove_session_file e sid s) = datasets_cache s"
  "dataset_files (remove_session_file e sid s) = dataset_files s"
  "source_files (remove_session_file e sid s) = source_files s"
  "sessions_meta (remove_session_file e sid s) = sessions_meta s"
  "datasets_dir (remove_session_file e sid s) = datasets_dir s"
  by (simp_all add: remove_session_file_def)

lemma save_session_data_fields [simp]:
  "sessions_cache (save_session_data e s sid b) = sessions_cache s"
  "datasets_cache (save_session_data e s sid b) = datasets_cache s"
  "dataset_files (save_session_data e s sid b) = dataset_files s"
  "source_files (save_session_data e s sid b) = source_files s"
  "sessions_meta (save_session_data e s sid b) = sessions_meta s"
  "datasets_dir (save_session_data e s sid b) = datasets_dir s"
  by (simp_all add: save_session_data_def)

lemma get_session_fields [simp]:
  "datasets_cache (snd (get_session e s sid)) = datasets_cache s"
  "session_files (snd (get_session e s sid)) = session_files s"
  "dataset_files (snd (get_session e s sid)) = dataset_files s"
  "source_files (snd (get_session e s sid)) = source_files s"
  "sessions_meta (snd (get_session e s sid)) = sessions_meta s"
  "datasets_dir (snd (get_session e s sid)) = datasets_dir s"
  by (simp_all add: get_session_def Let_def split: option.splits)

lemma get_session_cache [simp]:
  "sessions_cache (snd (get_session e s sid)) =
     (sessions_cache s)(sid \<mapsto> fst (get_session e s sid))"
  by (auto simp add: get_session_def Let_def split: option.splits)

lemma remove_dataset_file_fields [simp]:
  "sessions_cache (remove_dataset_file e d s) = sessions_cache s"
  "datasets_cache (remove_dataset_file e d s) = datasets_cache s"
  "session_files (remove_dataset_file e d s) = session_files s"
  "source_files (remove_dataset_file e d s) = source_files s"
  "sessions_meta (remove_dataset_file e d s) = sessions_meta s"
  "datasets_dir (remove_dataset_file e d s) = datasets_dir s"
  by (simp_all add: remove_dataset_file_def)

lemma fold_remove_fields [simp]:
  "sessions_cache (fold (remove_dataset_file e) ds s) = sessions_cache s"
  "datasets_cache (fold (remove_dataset_file e) ds s) = datasets_cache s"
  "session_files (fold (remove_dataset_file e) ds s) = session_files s"
  "source_files (fold (remove_dataset_file e) ds s) = source_files s"
  "sessions_meta (fold (remove_dataset_file e) ds s) = sessions_meta s"
  "datasets_dir (fold (remove_dataset_file e) ds s) = datasets_dir s"
  by (induction ds arbitrary: s) simp_all

lemma save_dataset_to_csv_fields [simp]:
  "sessions_cache (snd (save_dataset_to_csv e s d p)) = sessions_cache s"
  "datasets_cache (snd (save_dataset_to_csv e s d p)) = datasets_cache s"
  "session_files (snd (save_dataset_to_csv e s d p)) = session_files s"
  "source_files (snd (save_dataset_to_csv e s d p)) = source_files s"
  "sessions_meta (snd (save_dataset_to_csv e s d p)) = sessions_meta s"
  "datasets_dir (snd (save_dataset_to_csv e s d p)) = datasets_dir s"
  by (simp_all add: save_dataset_to_csv_def split: option.splits)

lemma datasets_cache_delete_session:
  "datasets_cache (snd (delete_session e s sid)) = datasets_cache s"
  by (simp add: delete_session_def Let_def split_def)

lemma sessions_meta_delete_session:
  "sessions_meta (snd (delete_session e s sid)) =
     filter (\<lambda>m. sm_id m \<noteq> sid) (sessions_meta s)"
  by (simp add: delete_session_def Let_def split_def)

lemma get_dataset_data_cached:
  "fst (get_dataset_data e s sid did) = Some data \<Longrightarrow>
   datasets_cache (snd (get_dataset_data e s sid did)) (cache_key sid did) = Some data"
  by (auto simp: get_dataset_data_def Let_def
      split: option.splits prod.splits if_splits sum.splits)

lemma get_dataset_data_hit:
  "datasets_cache s (cache_key sid did) = Some data \<Longrightarrow>
   get_dataset_data e s sid did = (Some data, s)"
  by (simp add: get_dataset_data_def)

section \<open>What the update operations do\<close>

lemma dict_set_key: "k \<in> fst ` set (dict_set k v xs)"
  by (induction k v xs rule: dict_set.induct) (auto simp: image_iff)


lemma map_of_dict_set: "map_of (dict_set k v xs) = (map_of xs)(k \<mapsto> v)"
  by (induction k v xs rule: dict_set.induct) (auto simp: fun_eq_iff)

lemma get_session_hit:
  "sessions_cache s sid = Some b \<Longrightarrow> get_session e s sid = (b, s)"
  by (simp add: get_session_def)

lemma get_session_unknown:
  "sessions_cache s sid = None \<Longrightarrow> session_files s sid = None \<Longrightarrow>
   fst (get_session e s sid) = empty_session"
  by (simp add: get_session_def load_session_data_def Let_def split: option.splits)

lemma update_first_unknown:
  "session_id \<notin> set (map sm_id ms) \<Longrightarrow> update_first session_id f ms = None"
  by (induction ms) auto

lemma touch_session_unknown:
  "sid \<notin> set (map sm_id (sessions_meta s)) \<Longrightarrow> touch_session e s sid = s"
  by (simp add: touch_session_def update_first_unknown)

lemma add_dataset_index:
  assumes "sid \<notin> set (map sm_id (list_sessions s))"
  shows "list_sessions (snd (add_dataset e s sid did ds)) = list_sessions s"
  using assms
  by (auto simp: add_dataset_def list_sessions_def Let_def split_def touch_session_unknown
      split: option.splits payload.splits)

lemma add_dataset_raises:
  "fst (add_dataset e s sid did ds) = Some err \<Longrightarrow> exc_class err = ''KeyError''"
  by (auto simp: add_dataset_def Let_def split_def KeyError_def split: option.splits)

lemma add_dataset_returns:
  "ds_name ds \<noteq> None \<Longrightarrow> ds_type ds \<noteq> None \<Longrightarrow> ds_preview ds \<noteq> None \<Longrightarrow>
   fst (add_dataset e s sid did ds) = None"
  by (auto simp: add_dataset_def Let_def split_def split: option.splits)

lemma add_dataset_cache:
  "fst (add_dataset e s sid did ds) = None \<Longrightarrow>
   \<exists>meta. sessions_cache (snd (add_dataset e s sid did ds)) =
     (sessions_cache s)(sid \<mapsto> (fst (get_session e s sid))
        \<lparr>sd_datasets := dict_set did meta (sd_datasets (fst (get_session e s sid)))\<rparr>) \<and>
     ds_path meta = ds_path ds \<and> ds_name meta = ds_name ds \<and>
     (ds_data_file meta \<noteq> None \<longrightarrow> dataset_files (snd (add_dataset e s sid did ds)) did \<noteq> None)"
  by (auto simp: add_dataset_def Let_def split_def save_dataset_to_csv_def split: option.splits payload.splits)

lemma add_dataset_recorded:
  assumes "fst (add_dataset e s sid did ds) = None"
  shows "did \<in> fst ` set (fst (get_datasets e' (snd (add_dataset e s sid did ds)) sid))"
proof -
  from add_dataset_cache[OF assms] obtain meta where
    c: "sessions_cache (snd (add_dataset e s sid did ds)) sid =
     Some ((fst (get_session e s sid))
        \<lparr>sd_datasets := dict_set did meta (sd_datasets (fst (get_session e s sid)))\<rparr>)"
    by auto
  show ?thesis
    by (simp add: get_datasets_def split_def Let_def get_session_hit[OF c] dict_set_key)
qed

lemma externalize_one_raises:
  "fst (externalize_one e d ds cur s) = Some err \<Longrightarrow> exc_class err = ''KeyError''"
  by (auto simp: externalize_one_def Let_def split_def KeyError_def split: option.splits)

lemma externalize_raises:
  "fst (externalize e xs cur s) = Some err \<Longrightarrow> exc_class err = ''KeyError''"
proof (induction xs arbitrary: cur s)
  case Nil
  then show ?case by simp
next
  case (Cons x xs)
  then show ?case
    using externalize_one_raises[of e "fst x" "snd x" cur s]
    by (auto split: prod.splits option.splits)
qed

lemma add_history_raises:
  "fst (add_history e s sid item) = Some err \<Longrightarrow> exc_class err = ''KeyError''"
  by (auto simp: add_history_def Let_def split_def split: option.splits dest: externalize_raises)

lemma add_history_plain:
  "h_datasets item = None \<Longrightarrow> fst (add_history e s sid item) = None"
  by (auto simp: add_history_def Let_def split_def split: option.splits)

lemma externalize_one_fields [simp]:
  "sessions_cache (snd (snd (externalize_one e d ds cur s))) = sessions_cache s"
  "datasets_cache (snd (snd (externalize_one e d ds cur s))) = datasets_cache s"
  "session_files (snd (snd (externalize_one e d ds cur s))) = session_files s"
  "source_files (snd (snd (externalize_one e d ds cur s))) = source_files s"
  "sessions_meta (snd (snd (externalize_one e d ds cur s))) = sessions_meta s"
  "datasets_dir (snd (snd (externalize_one e d ds cur s))) = datasets_dir s"
  by (simp_all add: externalize_one_def Let_def split_def split: option.splits)

lemma externalize_step:
  "externalize e (x # xs) cur s =
     (if fst (externalize_one e (fst x) (snd x) cur s) = None
      then externalize e xs (fst (snd (externalize_one e (fst x) (snd x) cur s)))
             (snd (snd (externalize_one e (fst x) (snd x) cur s)))
      else externalize_one e (fst x) (snd x) cur s)"
  by (auto split: prod.splits option.splits)

lemma externalize_fields [simp]:
  "sessions_cache (snd (snd (externalize e xs cur s))) = sessions_cache s"
  "datasets_cache (snd (snd (externalize e xs cur s))) = datasets_cache s"
  "session_files (snd (snd (externalize e xs cur s))) = session_files s"
  "source_files (snd (snd (externalize e xs cur s))) = source_files s"
  "sessions_meta (snd (snd (externalize e xs cur s))) = sessions_meta s"
  "datasets_dir (snd (snd (externalize e xs cur s))) = datasets_dir s"
  by (induction xs arbitrary: cur s) (simp_all add: externalize_step del: externalize.simps(2))

lemma add_history_appends:
  assumes "fst (add_history e s sid item) = None"
  shows "\<exists>dss. fst (get_history e' (snd (add_history e s sid item)) sid) =
           fst (get_history e s sid) @ [item\<lparr>h_datasets := dss\<rparr>]"
proof -
  have "\<exists>dss. sessions_cache (snd (add_history e s sid item)) sid =
     Some ((fst (get_session e s sid))
        \<lparr>sd_history := sd_history (fst (get_session e s sid)) @ [item\<lparr>h_datasets := dss\<rparr>]\<rparr>)"
    using assms
    by (auto simp: add_history_def Let_def split_def split: option.splits)
  then obtain dss where c: "sessions_cache (snd (add_history e s sid item)) sid =
     Some ((fst (get_session e s sid))
        \<lparr>sd_history := sd_history (fst (get_session e s sid)) @ [item\<lparr>h_datasets := dss\<rparr>]\<rparr>)"
    by blast
  show ?thesis
    by (rule exI[of _ dss]) (simp add: get_history_def split_def Let_def get_session_hit[OF c])
qed

lemma add_history_plain_appends:
  assumes "h_datasets item = None"
  shows "fst (get_history e' (snd (add_history e s sid item)) sid) =
           fst (get_history e s sid) @ [item]"
proof -
  have c: "sessions_cache (snd (add_history e s sid item)) sid =
     Some ((fst (get_session e s sid))
        \<lparr>sd_history := sd_history (fst (get_session e s sid)) @ [item]\<rparr>)"
    using assms by (simp add: add_history_def Let_def split_def)
  show ?thesis
    by (simp add: get_history_def split_def Let_def get_session_hit[OF c])
qed

lemma add_history_index:
  assumes "sid \<notin> set (map sm_id (list_sessions s))"
  shows "list_sessions (snd (add_history e s sid item)) = list_sessions s"
  using assms
  by (auto simp: add_history_def list_sessions_def Let_def split_def touch_session_unknown
      split: option.splits)

section \<open>Recorded data files exist\<close>


lemma referenced_empty [simp]: "referenced empty_session = []"
  by (simp add: referenced_def empty_session_def)

lemma bodies_cong:
  "sessions_cache s' x = sessions_cache s x \<Longrightarrow> session_files s' x = session_files s x \<Longrightarrow>
   bodies s' x = bodies s x"
  by (simp add: bodies_def)











lemma save_dataset_to_csv_saved:
  "fst (save_dataset_to_csv e s k p) \<Longrightarrow> k \<in> dom (dataset_files (snd (save_dataset_to_csv e s k p)))"
  by (simp add: save_dataset_to_csv_def split: option.splits if_splits)



























lemma add_dataset_saved:
  assumes "ds_name ds = Some n" "ds_type ds = Some ty" "ds_preview ds = Some pv"
    and "ds_data ds = Some (Columns tb)" "to_csv e (Columns tb) = Some f"
    and "write_ok e (DatasetFile did)"
  shows "sessions_cache (snd (add_dataset e s sid did ds)) sid =
     Some ((fst (get_session e s sid))\<lparr>sd_datasets := dict_set did
        \<lparr>ds_name = Some n, ds_type = Some ty, ds_preview = Some pv, ds_path = ds_path ds,
         ds_data = None, ds_data_file = Some (get_dataset_path s did)\<rparr>
        (sd_datasets (fst (get_session e s sid)))\<rparr>)"
    and "dataset_files (snd (add_dataset e s sid did ds)) did = Some f"
    and "datasets_cache (snd (add_dataset e s sid did ds)) = datasets_cache s"
  using assms
  by (simp_all add: add_dataset_def Let_def split_def save_dataset_to_csv_def
      get_dataset_path_def)

lemma add_dataset_by_path:
  assumes "ds_name ds = Some n" "ds_type ds = Some ty" "ds_preview ds = Some pv"
    and "ds_data ds = None"
  shows "sessions_cache (snd (add_dataset e s sid did ds)) sid =
     Some ((fst (get_session e s sid))\<lparr>sd_datasets := dict_set did
        \<lparr>ds_name = Some n, ds_type = Some ty, ds_preview = Some pv, ds_path = ds_path ds,
         ds_data = None, ds_data_file = None\<rparr>
        (sd_datasets (fst (get_session e s sid)))\<rparr>)"
    and "source_files (snd (add_dataset e s sid did ds)) = source_files s"
    and "datasets_cache (snd (add_dataset e s sid did ds)) = datasets_cache s"
  using assms
  by (simp_all add: add_dataset_def Let_def split_def)

section \<open>Properties of the session store\<close>

text \<open>
  C9. Claimed: \<open>delete_session(id)\<close> returns false for an id that is not in the session
  index. The code ends in \<open>return True\<close> on every path: at the empty store, deleting the
  id \<open>ghost\<close>, which no session has, answers \<open>True\<close>.
\<close>

theorem delete_session_unknown_returns_True:
  "''ghost'' \<notin> set (map sm_id (list_sessions empty_store)) \<and>
   fst (delete_session quiet_env empty_store ''ghost'') = True"
  by (simp add: delete_session_def list_sessions_def empty_store_def Let_def split_def)

text \<open>
  C10. \<open>delete_session\<close> leaves \<open>datasets_cache\<close> as it was (it only evicts the session's
  entry of \<open>sessions_cache\<close>); so whenever \<open>get_dataset_data\<close> has returned a payload for a
  session and dataset, the same call after \<open>delete_session\<close> of that session still
  returns that payload, from the cache.
\<close>

theorem delete_session_keeps_datasets_cache:
  "datasets_cache (snd (delete_session e2 s0 sid0)) = datasets_cache s0 \<and>
   (fst (get_dataset_data e1 s sid did) = Some data \<longrightarrow>
    fst (get_dataset_data e3
          (snd (delete_session e2 (snd (get_dataset_data e1 s sid did)) sid)) sid did)
      = Some data)"
proof (intro conjI impI)
  show "datasets_cache (snd (delete_session e2 s0 sid0)) = datasets_cache s0"
    by (rule datasets_cache_delete_session)
next
  assume got: "fst (get_dataset_data e1 s sid did) = Some data"
  let ?s1 = "snd (get_dataset_data e1 s sid did)"
  have "datasets_cache ?s1 (cache_key sid did) = Some data"
    using got by (rule get_dataset_data_cached)
  then have "datasets_cache (snd (delete_session e2 ?s1 sid)) (cache_key sid did) = Some data"
    by (simp add: datasets_cache_delete_session)
  then show "fst (get_dataset_data e3 (snd (delete_session e2 ?s1 sid)) sid did) = Some data"
    by (simp add: get_dataset_data_hit)
qed

text \<open>
  The scenario: \<open>d1\<close> of session \<open>s1\<close> is fetched, \<open>s1\<close> is deleted (its CSV file is gone
  from the disk), and the next fetch still answers the table; a service started afresh
  on the same disk answers \<open>None\<close>.
\<close>

theorem delete_session_keeps_datasets_cache_witness:
  "fst (get_dataset_data quiet_env demo_store ''s1'' ''d1'') = Some demo_table \<and>
   fst (get_dataset_data quiet_env
          (snd (delete_session quiet_env
                  (snd (get_dataset_data quiet_env demo_store ''s1'' ''d1'')) ''s1''))
          ''s1'' ''d1'') = Some demo_table \<and>
   dataset_files
     (snd (delete_session quiet_env
             (snd (get_dataset_data quiet_env demo_store ''s1'' ''d1'')) ''s1'')) ''d1'' = None \<and>
   fst (get_dataset_data quiet_env
          (init_service quiet_env
             (snd (delete_session quiet_env
                     (snd (get_dataset_data quiet_env demo_store ''s1'' ''d1'')) ''s1'')))
          ''s1'' ''d1'') = None"
proof -
  have got: "fst (get_dataset_data quiet_env demo_store ''s1'' ''d1'') = Some demo_table"
    by (simp add: store_defs demo_defs Let_def split_def)
  have still: "fst (get_dataset_data quiet_env
          (snd (delete_session quiet_env
                  (snd (get_dataset_data quiet_env demo_store ''s1'' ''d1'')) ''s1''))
          ''s1'' ''d1'') = Some demo_table"
    using delete_session_keeps_datasets_cache
      [of quiet_env demo_store "''s1''" quiet_env demo_store "''s1''" "''d1''" demo_table
         quiet_env]
      got by simp
  have gone: "dataset_files
     (snd (delete_session quiet_env
             (snd (get_dataset_data quiet_env demo_store ''s1'' ''d1'')) ''s1'')) ''d1'' = None"
    by (simp add: store_defs demo_defs Let_def split_def)
  have fresh: "fst (get_dataset_data quiet_env
          (init_service quiet_env
             (snd (delete_session quiet_env
                     (snd (get_dataset_data quiet_env demo_store ''s1'' ''d1'')) ''s1'')))
          ''s1'' ''d1'') = None"
    by (simp add: store_defs demo_defs Let_def split_def)
  from got still gone fresh show ?thesis by simp
qed

text \<open>
  C2. Claimed: after \<open>delete_session(id)\<close> the id is not listed and no CSV file of a
  dataset of that session remains, whether or not the session body was in the cache.
  The code removes the body file first and reads the body afterwards: on a service
  started afresh (empty \<open>sessions_cache\<close>) over a disk holding session \<open>s1\<close> with dataset
  \<open>d1\<close>, the body read back is the empty default, no dataset file is removed, and
  \<open>d1.csv\<close> stays on the disk. With the body in the cache the same call removes it.
\<close>

theorem delete_session_uncached_leaves_csv:
  "''s1'' \<in> set (map sm_id (list_sessions (init_service quiet_env demo_store))) \<and>
   map_option ds_data_file
     (map_of (fst (get_datasets quiet_env (init_service quiet_env demo_store) ''s1'')) ''d1'')
     = Some (Some ''data/datasets/d1.csv'') \<and>
   ''s1'' \<notin> set (map sm_id
      (list_sessions (snd (delete_session quiet_env (init_service quiet_env demo_store) ''s1'')))) \<and>
   dataset_files (snd (delete_session quiet_env (init_service quiet_env demo_store) ''s1''))
      ''d1'' = Some demo_table \<and>
   dataset_files (snd (delete_session quiet_env demo_store ''s1'')) ''d1'' = None"
  by (simp add: store_defs demo_defs Let_def split_def)

text \<open>
  C4. Claimed: on a session id that was deleted or never created, \<open>add_dataset\<close> and
  \<open>add_history\<close> fail with \<open>SessionNotFound\<close>. The store has no such check: \<open>get_session\<close>
  answers an empty body for an id with no cached body and no body file, and both
  operations go on. After
  \<open>delete_session('s1')\<close> the id \<open>s1\<close> is out of the index, and still \<open>add_dataset\<close> and
  \<open>add_history\<close> on \<open>s1\<close> return normally and the session holds the new dataset, or the
  new item.
\<close>

theorem update_on_deleted_session_counterexample:
  "''s1'' \<in> set (map sm_id (list_sessions demo_store)) \<and>
   ''s1'' \<notin> set (map sm_id (list_sessions deleted_store)) \<and>
   fst (add_dataset quiet_env deleted_store ''s1'' ''d2'' demo_dataset) = None \<and>
   map fst (fst (get_datasets quiet_env
      (snd (add_dataset quiet_env deleted_store ''s1'' ''d2'' demo_dataset)) ''s1'')) = [''d2''] \<and>
   fst (add_history quiet_env deleted_store ''s1'' demo_item) = None \<and>
   fst (get_history quiet_env
      (snd (add_history quiet_env deleted_store ''s1'' demo_item)) ''s1'') = [demo_item]"
  by (simp add: store_defs demo_defs Let_def split_def)

text \<open>
  C4, amended. For every session id, known to the index or not, \<open>add_dataset\<close> and
  \<open>add_history\<close> never fail with \<open>SessionNotFound\<close>: the only exception that leaves them
  is the \<open>KeyError\<close> of a dataset without \<open>name\<close>, \<open>type\<close> or \<open>preview\<close>. A dataset that
  has the three keys is recorded under its id in the session's datasets, and a history
  item without embedded datasets is appended to the session's history. For an id that is
  not in the session index both operations leave the index as it was, so the id stays
  out of \<open>list_sessions\<close>; and the body they extend is the empty one when the id has
  neither a cached body nor a body file.
\<close>

theorem updates_never_raise_SessionNotFound:
  "(\<forall>err. fst (add_dataset e s sid did ds) = Some err \<longrightarrow> exc_class err = ''KeyError'') \<and>
   (ds_name ds \<noteq> None \<and> ds_type ds \<noteq> None \<and> ds_preview ds \<noteq> None \<longrightarrow>
      fst (add_dataset e s sid did ds) = None \<and>
      did \<in> fst ` set (fst (get_datasets e' (snd (add_dataset e s sid did ds)) sid))) \<and>
   (\<forall>err. fst (add_history e s sid item) = Some err \<longrightarrow> exc_class err = ''KeyError'') \<and>
   (h_datasets item = None \<longrightarrow>
      fst (add_history e s sid item) = None \<and>
      fst (get_history e' (snd (add_history e s sid item)) sid) =
        fst (get_history e s sid) @ [item]) \<and>
   (sid \<notin> set (map sm_id (list_sessions s)) \<longrightarrow>
      list_sessions (snd (add_dataset e s sid did ds)) = list_sessions s \<and>
      list_sessions (snd (add_history e s sid item)) = list_sessions s) \<and>
   (sessions_cache s sid = None \<and> session_files s sid = None \<longrightarrow>
      fst (get_session e s sid) = empty_session)"
proof (intro conjI allI impI)
  fix err
  assume "fst (add_dataset e s sid did ds) = Some err"
  then show "exc_class err = ''KeyError''" by (rule add_dataset_raises)
next
  assume keys: "ds_name ds \<noteq> None \<and> ds_type ds \<noteq> None \<and> ds_preview ds \<noteq> None"
  then show ok: "fst (add_dataset e s sid did ds) = None"
    by (simp add: add_dataset_returns)
  then show "did \<in> fst ` set (fst (get_datasets e' (snd (add_dataset e s sid did ds)) sid))"
    by (rule add_dataset_recorded)
next
  fix err
  assume "fst (add_history e s sid item) = Some err"
  then show "exc_class err = ''KeyError''" by (rule add_history_raises)
next
  assume plain: "h_datasets item = None"
  then show "fst (add_history e s sid item) = None" by (rule add_history_plain)
  from plain show "fst (get_history e' (snd (add_history e s sid item)) sid) =
        fst (get_history e s sid) @ [item]"
    by (rule add_history_plain_appends)
next
  assume out: "sid \<notin> set (map sm_id (list_sessions s))"
  then show "list_sessions (snd (add_dataset e s sid did ds)) = list_sessions s"
    by (rule add_dataset_index)
  from out show "list_sessions (snd (add_history e s sid item)) = list_sessions s"
    by (rule add_history_index)
next
  assume "sessions_cache s sid = None \<and> session_files s sid = None"
  then show "fst (get_session e s sid) = empty_session"
    by (simp add: get_session_unknown)
qed

theorem updates_never_raise_SessionNotFound_witness:
  "''s1'' \<notin> set (map sm_id (list_sessions deleted_store)) \<and>
   ds_name demo_dataset \<noteq> None \<and> ds_type demo_dataset \<noteq> None \<and>
   ds_preview demo_dataset \<noteq> None \<and> h_datasets demo_item = None \<and>
   fst (add_dataset quiet_env deleted_store ''s1'' ''d2'' demo_dataset) = None \<and>
   ''d2'' \<in> fst ` set (fst (get_datasets quiet_env
      (snd (add_dataset quiet_env deleted_store ''s1'' ''d2'' demo_dataset)) ''s1'')) \<and>
   fst (add_history quiet_env deleted_store ''s1'' demo_item) = None \<and>
   fst (get_history quiet_env
      (snd (add_history quiet_env deleted_store ''s1'' demo_item)) ''s1'') =
     fst (get_history quiet_env deleted_store ''s1'') @ [demo_item] \<and>
   list_sessions (snd (add_dataset quiet_env deleted_store ''s1'' ''d2'' demo_dataset)) =
     list_sessions deleted_store \<and>
   list_sessions (snd (add_history quiet_env deleted_store ''s1'' demo_item)) =
     list_sessions deleted_store \<and>
   sessions_cache deleted_store ''s1'' = None \<and> session_files deleted_store ''s1'' = None \<and>
   fst (get_session quiet_env deleted_store ''s1'') = empty_session"
proof -
  have idx: "''s1'' \<notin> set (map sm_id (list_sessions deleted_store))"
    by (simp add: store_defs demo_defs Let_def split_def)
  have gone: "sessions_cache deleted_store ''s1'' = None \<and>
      session_files deleted_store ''s1'' = None"
    by (simp add: store_defs demo_defs Let_def split_def)
  have keys: "ds_name demo_dataset \<noteq> None \<and> ds_type demo_dataset \<noteq> None \<and>
      ds_preview demo_dataset \<noteq> None"
    by (simp add: demo_dataset_def)
  have plain: "h_datasets demo_item = None"
    by (simp add: demo_item_def)
  from updates_never_raise_SessionNotFound
    [where e = quiet_env and s = deleted_store and sid = "''s1''" and did = "''d2''"
       and ds = demo_dataset and e' = quiet_env and item = demo_item]
    idx keys plain gone
  show ?thesis by simp
qed




text \<open>
  C7. Claimed: a payload saved through \<open>add_dataset\<close> and loaded back through
  \<open>get_dataset_data\<close> round-trips except that missing values are filled (\<open>0\<close> in numeric
  columns, the empty string in the others). \<open>_load_dataset_from_csv\<close> returns what
  \<open>read_csv\<close> gives and fills nothing; the fill is part of \<open>DataLoader.load_data\<close> only.
  With a CSV encoding that loses nothing, the table with a missing value in the numeric
  column \<open>a\<close> comes back with the value still missing, where the fill rule gives \<open>0\<close>.
\<close>

theorem saved_dataset_roundtrip_counterexample:
  "ds_data demo_dataset = Some (Columns demo_table) \<and>
   fst (get_dataset_data quiet_env
          (snd (add_dataset quiet_env (snd (create_session quiet_env empty_store ''s1'' ''one''))
                  ''s1'' ''d1'' demo_dataset)) ''s1'' ''d1'') =
     Some [(''a'', [Num 1, Null]), (''b'', [Str ''x'', Str ''y''])] \<and>
   fillna quiet_env demo_table = [(''a'', [Num 1, Num 0]), (''b'', [Str ''x'', Str ''y''])]"
  by (simp add: store_defs demo_defs Let_def split_def)

text \<open>
  C7, amended. A payload saved through \<open>add_dataset\<close> (the CSV write succeeding) and
  loaded through \<open>get_dataset_data\<close> on a cache miss comes back exactly as \<open>read_csv\<close>
  reads the file \<open>to_csv\<close> wrote, provided that table is not empty: the store applies no
  fill to it. The fill applies to a dataset recorded with its original \<open>path\<close> and no
  payload, which \<open>get_dataset_data\<close> reloads with \<open>DataLoader.load_data\<close> when
  \<open>app.utils.data_loader\<close> can be imported; when the import fails the answer is \<open>None\<close>.
\<close>

theorem saved_dataset_loads_unfilled:
  "(ds_name ds \<noteq> None \<and> ds_type ds \<noteq> None \<and> ds_preview ds \<noteq> None \<and>
    ds_data ds = Some (Columns tb) \<and> to_csv e (Columns tb) = Some f \<and>
    write_ok e (DatasetFile did) \<and> datasets_cache s (cache_key sid did) = None \<and>
    read_ok e' (DatasetFile did) \<and> read_csv e' f = Some tb' \<and> tb' \<noteq> [] \<longrightarrow>
    fst (get_dataset_data e' (snd (add_dataset e s sid did ds)) sid did) = Some tb') \<and>
   (ds_name ds \<noteq> None \<and> ds_type ds \<noteq> None \<and> ds_preview ds \<noteq> None \<and>
    ds_data ds = None \<and> ds_path ds = Some file_path \<and>
    datasets_cache s (cache_key sid did) = None \<and>
    loader_importable e' \<and>
    source_files s file_path = Some f \<and> read_ok e' (SourceFile file_path) \<and>
    file_extension e' file_path = ''.csv'' \<and> read_csv e' f = Some tb' \<longrightarrow>
    fst (get_dataset_data e' (snd (add_dataset e s sid did ds)) sid did) =
      Some (fillna e' tb')) \<and>
   (ds_name ds \<noteq> None \<and> ds_type ds \<noteq> None \<and> ds_preview ds \<noteq> None \<and>
    ds_data ds = None \<and> ds_path ds = Some file_path \<and>
    datasets_cache s (cache_key sid did) = None \<and> \<not> loader_importable e' \<longrightarrow>
    fst (get_dataset_data e' (snd (add_dataset e s sid did ds)) sid did) = None)"
proof (intro conjI impI)
  assume a: "ds_name ds \<noteq> None \<and> ds_type ds \<noteq> None \<and> ds_preview ds \<noteq> None \<and>
    ds_data ds = Some (Columns tb) \<and> to_csv e (Columns tb) = Some f \<and>
    write_ok e (DatasetFile did) \<and> datasets_cache s (cache_key sid did) = None \<and>
    read_ok e' (DatasetFile did) \<and> read_csv e' f = Some tb' \<and> tb' \<noteq> []"
  then obtain n ty pv where k: "ds_name ds = Some n" "ds_type ds = Some ty"
      "ds_preview ds = Some pv" by auto
  from a have d: "ds_data ds = Some (Columns tb)" "to_csv e (Columns tb) = Some f"
      "write_ok e (DatasetFile did)" by simp_all
  note eff = add_dataset_saved[OF k d, of s sid]
  show "fst (get_dataset_data e' (snd (add_dataset e s sid did ds)) sid did) = Some tb'"
    using a
    by (simp add: get_dataset_data_def eff get_session_hit[OF eff(1)] map_of_dict_set
        load_dataset_from_csv_def)
next
  assume a: "ds_name ds \<noteq> None \<and> ds_type ds \<noteq> None \<and> ds_preview ds \<noteq> None \<and>
    ds_data ds = None \<and> ds_path ds = Some file_path \<and>
    datasets_cache s (cache_key sid did) = None \<and>
    loader_importable e' \<and>
    source_files s file_path = Some f \<and> read_ok e' (SourceFile file_path) \<and>
    file_extension e' file_path = ''.csv'' \<and> read_csv e' f = Some tb'"
  then obtain n ty pv where k: "ds_name ds = Some n" "ds_type ds = Some ty"
      "ds_preview ds = Some pv" by auto
  from a have d: "ds_data ds = None" by simp
  note eff = add_dataset_by_path[OF k d, of e s sid did]
  show "fst (get_dataset_data e' (snd (add_dataset e s sid did ds)) sid did) =
      Some (fillna e' tb')"
    using a
    by (simp add: get_dataset_data_def eff get_session_hit[OF eff(1)] map_of_dict_set
        load_data_def)
next
  assume a: "ds_name ds \<noteq> None \<and> ds_type ds \<noteq> None \<and> ds_preview ds \<noteq> None \<and>
    ds_data ds = None \<and> ds_path ds = Some file_path \<and>
    datasets_cache s (cache_key sid did) = None \<and> \<not> loader_importable e'"
  then obtain n ty pv where k: "ds_name ds = Some n" "ds_type ds = Some ty"
      "ds_preview ds = Some pv" by auto
  from a have d: "ds_data ds = None" by simp
  note eff = add_dataset_by_path[OF k d, of e s sid did]
  show "fst (get_dataset_data e' (snd (add_dataset e s sid did ds)) sid did) = None"
    using a
    by (simp add: get_dataset_data_def eff get_session_hit[OF eff(1)] map_of_dict_set)
qed


theorem saved_dataset_loads_unfilled_witness:
  "fst (get_dataset_data quiet_env
          (snd (add_dataset quiet_env empty_store ''s1'' ''d1'' demo_dataset)) ''s1'' ''d1'') =
     Some demo_table \<and>
   fst (get_dataset_data quiet_env
          (snd (add_dataset quiet_env upload_store ''s1'' ''d3'' uploaded_dataset)) ''s1'' ''d3'') =
     Some (fillna quiet_env demo_table) \<and>
   fst (get_dataset_data no_loader_env
          (snd (add_dataset quiet_env upload_store ''s1'' ''d3'' uploaded_dataset)) ''s1'' ''d3'') =
     None \<and>
   demo_table = [(''a'', [Num 1, Null]), (''b'', [Str ''x'', Str ''y''])] \<and>
   fillna quiet_env demo_table = [(''a'', [Num 1, Num 0]), (''b'', [Str ''x'', Str ''y''])]"
proof -
  have csv: "ds_name demo_dataset \<noteq> None \<and> ds_type demo_dataset \<noteq> None \<and>
    ds_preview demo_dataset \<noteq> None \<and> ds_data demo_dataset = Some (Columns demo_table) \<and>
    to_csv quiet_env (Columns demo_table) = Some demo_table \<and>
    write_ok quiet_env (DatasetFile ''d1'') \<and>
    datasets_cache empty_store (cache_key ''s1'' ''d1'') = None \<and>
    read_ok quiet_env (DatasetFile ''d1'') \<and> read_csv quiet_env demo_table = Some demo_table \<and>
    demo_table \<noteq> []"
    by (simp add: demo_defs)
  have src: "ds_name uploaded_dataset \<noteq> None \<and> ds_type uploaded_dataset \<noteq> None \<and>
    ds_preview uploaded_dataset \<noteq> None \<and> ds_data uploaded_dataset = None \<and>
    ds_path uploaded_dataset = Some ''uploads/sales.csv'' \<and>
    datasets_cache upload_store (cache_key ''s1'' ''d3'') = None \<and>
    loader_importable quiet_env \<and>
    source_files upload_store ''uploads/sales.csv'' = Some demo_table \<and>
    read_ok quiet_env (SourceFile ''uploads/sales.csv'') \<and>
    file_extension quiet_env ''uploads/sales.csv'' = ''.csv'' \<and>
    read_csv quiet_env demo_table = Some demo_table"
    by (simp add: demo_defs)
  have nol: "ds_name uploaded_dataset \<noteq> None \<and> ds_type uploaded_dataset \<noteq> None \<and>
    ds_preview uploaded_dataset \<noteq> None \<and> ds_data uploaded_dataset = None \<and>
    ds_path uploaded_dataset = Some ''uploads/sales.csv'' \<and>
    datasets_cache upload_store (cache_key ''s1'' ''d3'') = None \<and>
    \<not> loader_importable no_loader_env"
    by (simp add: demo_defs)
  have vals: "demo_table = [(''a'', [Num 1, Null]), (''b'', [Str ''x'', Str ''y''])]"
    "fillna quiet_env demo_table = [(''a'', [Num 1, Num 0]), (''b'', [Str ''x'', Str ''y''])]"
    by (simp_all add: demo_defs fillna_def)
  from saved_dataset_loads_unfilled
    [where ds = demo_dataset and tb = demo_table and e = quiet_env and f = demo_table
       and did = "''d1''" and s = empty_store and sid = "''s1''" and e' = quiet_env
       and tb' = demo_table] csv
  have one: "fst (get_dataset_data quiet_env
          (snd (add_dataset quiet_env empty_store ''s1'' ''d1'' demo_dataset)) ''s1'' ''d1'') =
     Some demo_table"
    by blast
  from saved_dataset_loads_unfilled
    [where ds = uploaded_dataset and file_path = "''uploads/sales.csv''" and f = demo_table
       and did = "''d3''" and s = upload_store and sid = "''s1''" and e' = quiet_env
       and tb' = demo_table and e = quiet_env] src
  have two: "fst (get_dataset_data quiet_env
          (snd (add_dataset quiet_env upload_store ''s1'' ''d3'' uploaded_dataset)) ''s1'' ''d3'') =
     Some (fillna quiet_env demo_table)"
    by blast
  from saved_dataset_loads_unfilled
    [where ds = uploaded_dataset and file_path = "''uploads/sales.csv''"
       and did = "''d3''" and s = upload_store and sid = "''s1''" and e' = no_loader_env
       and e = quiet_env] nol
  have three: "fst (get_dataset_data no_loader_env
          (snd (add_dataset quiet_env upload_store ''s1'' ''d3'' uploaded_dataset)) ''s1'' ''d3'') =
     None"
    by blast
  from one two three vals show ?thesis by simp
qed

section \<open>The patterns on fenced blocks\<close>


lemma not_space_backtick [simp]: "\<not> is_space 96"
  by (simp add: is_space_def)

lemma starts_with_Nil [simp]: "starts_with [] s"
  by (simp add: starts_with_def)

lemma starts_with_append [simp]: "starts_with p (p @ s)"
  by (simp add: starts_with_def)














































section \<open>The keyword scorer\<close>













section \<open>Properties of the agents\<close>




text \<open>
  C1. Claimed: an exception raised while the generated analysis function runs is caught
  by \<open>execute\<close> and handed to the caller wrapped as \<open>GeneratedCodeError\<close>. \<open>execute\<close> has
  \<open>try ... finally\<close> and no \<open>except\<close>, and no class \<open>GeneratedCodeError\<close> exists: a
  generated function that raises \<open>ZeroDivisionError\<close> makes \<open>execute\<close> raise that very
  \<open>ZeroDivisionError\<close>.
\<close>

theorem generated_code_error_counterexample:
  "fst (run_generated_code demo_runtime Map.empty [demo_table] (ascii ''code'')) =
     Inl (PyExc ''ZeroDivisionError'' (ascii ''division by zero'')) \<and>
   fst (analysis_execute quiet_env empty_store demo_runtime (\<lambda>inputs req. Inr (ascii ''code''))
          [] Map.empty [InFrame demo_table] (ascii ''mean'')) =
     Inl (PyExc ''ZeroDivisionError'' (ascii ''division by zero'')) \<and>
   exc_class (PyExc ''ZeroDivisionError'' (ascii ''division by zero'')) \<noteq> ''GeneratedCodeError''"
  by (simp add: run_generated_code_def analysis_execute_def process_inputs_def demo_runtime_def
      Let_def)

text \<open>
  C1, amended. An exception raised by the generated code, while the module is loaded or
  while \<open>analyze_data\<close> runs, leaves \<open>execute\<close> unchanged, with its own class and message,
  after the temporary module file has been removed; when removing the file fails, the
  \<open>OSError\<close> of \<open>os.unlink\<close> leaves instead.
\<close>

theorem generated_code_exception_propagates_unwrapped:
  "(create_ok rt \<and> unlink_ok rt \<and>
    (exec_module rt code = Inl ex \<or>
     (\<exists>f. exec_module rt code = Inr (Callable f) \<and> f dfs = Inl ex)) \<longrightarrow>
      run_generated_code rt files dfs code = (Inl ex, files(temp_name rt := None))) \<and>
   (create_ok rt \<and> \<not> unlink_ok rt \<longrightarrow>
      fst (run_generated_code rt files dfs code) = Inl (PyExc ''OSError'' [])) \<and>
   (process_inputs e s inputs = Inr dfs \<and> chat inputs requirement = Inr raw \<and>
    create_ok rt \<and> unlink_ok rt \<and>
    (exec_module rt (extract_code_from_response raw) = Inl ex \<or>
     (\<exists>f. exec_module rt (extract_code_from_response raw) = Inr (Callable f) \<and>
          f dfs = Inl ex)) \<longrightarrow>
      fst (analysis_execute e s rt chat old_code files inputs requirement) = Inl ex)"
  by (auto simp: run_generated_code_def analysis_execute_def Let_def split_def)

theorem generated_code_exception_propagates_unwrapped_witness:
  "create_ok demo_runtime \<and> unlink_ok demo_runtime \<and>
   run_generated_code demo_runtime [''old.py'' \<mapsto> []] [demo_table] (ascii ''code'') =
     (Inl (PyExc ''ZeroDivisionError'' (ascii ''division by zero'')),
      ([''old.py'' \<mapsto> []])(temp_name demo_runtime := None)) \<and>
   fst (run_generated_code (demo_runtime\<lparr>unlink_ok := False\<rparr>) Map.empty [demo_table]
          (ascii ''code'')) = Inl (PyExc ''OSError'' []) \<and>
   fst (analysis_execute quiet_env empty_store demo_runtime (\<lambda>inputs req. Inr (ascii ''code''))
          [] Map.empty [InFrame demo_table] (ascii ''mean'')) =
     Inl (PyExc ''ZeroDivisionError'' (ascii ''division by zero''))"
proof -
  let ?ex = "PyExc ''ZeroDivisionError'' (ascii ''division by zero'')"
  have rt: "create_ok demo_runtime" "unlink_ok demo_runtime"
    "\<And>c. \<exists>f. exec_module demo_runtime c = Inr (Callable f) \<and> f [demo_table] = Inl ?ex"
    by (simp_all add: demo_runtime_def)
  have rt': "create_ok (demo_runtime\<lparr>unlink_ok := False\<rparr>)"
    "\<not> unlink_ok (demo_runtime\<lparr>unlink_ok := False\<rparr>)"
    by (simp_all add: demo_runtime_def)
  have inp: "process_inputs quiet_env empty_store [InFrame demo_table] = Inr [demo_table]"
    by (simp add: process_inputs_def)
  have one: "run_generated_code demo_runtime [''old.py'' \<mapsto> []] [demo_table] (ascii ''code'') =
     (Inl ?ex, ([''old.py'' \<mapsto> []])(temp_name demo_runtime := None))"
    using generated_code_exception_propagates_unwrapped
      [where rt = demo_runtime and code = "ascii ''code''" and ex = "?ex"
         and dfs = "[demo_table]" and files = "[''old.py'' \<mapsto> []]"] rt
    by blast
  have two: "fst (run_generated_code (demo_runtime\<lparr>unlink_ok := False\<rparr>) Map.empty
      [demo_table] (ascii ''code'')) = Inl (PyExc ''OSError'' [])"
    using generated_code_exception_propagates_unwrapped
      [where rt = "demo_runtime\<lparr>unlink_ok := False\<rparr>"] rt'
    by blast
  have three: "fst (analysis_execute quiet_env empty_store demo_runtime
      (\<lambda>inputs req. Inr (ascii ''code'')) [] Map.empty [InFrame demo_table] (ascii ''mean'')) =
     Inl ?ex"
    using generated_code_exception_propagates_unwrapped
      [where rt = demo_runtime and e = quiet_env and s = empty_store
         and inputs = "[InFrame demo_table]" and dfs = "[demo_table]"
         and chat = "\<lambda>inputs req. Inr (ascii ''code'')" and raw = "ascii ''code''"
         and requirement = "ascii ''mean''" and ex = "?ex" and old_code = "[]"
         and files = Map.empty] rt inp
    by blast
  from rt(1,2) one two three show ?thesis by simp
qed






end
